theory Spec2Isabelle
  imports Main
begin

section \<open>The theme controller of the admin dashboard (dashboard.js)\<close>

text \<open>
  The script is one immediately-invoked function. It looks two elements up once
  (\<^verbatim>\<open>link = getElementById("bsTheme")\<close>, \<^verbatim>\<open>btn = getElementById("themeToggle")\<close>), defines
  \<^verbatim>\<open>apply\<close> and \<^verbatim>\<open>init\<close>, and runs \<^verbatim>\<open>init\<close> once the document is parsed. Everything it touches
  is browser state, so the embedding passes that state explicitly, and every operation
  that can throw in JavaScript returns a sum: \<open>Inl\<close> the exception, \<open>Inr\<close> the new state.
\<close>

subsection \<open>Values, exceptions and the page\<close>

text \<open>
  JavaScript values as far as the strict comparison \<^verbatim>\<open>theme === "light"\<close> can tell them
  apart: a string, or something that is not a string (identified by an opaque number
  where the kind has many inhabitants).
\<close>

datatype jsval =
    JSString string
  | JSUndefined
  | JSNull
  | JSBoolean bool
  | JSOther nat

datatype js_error =
    TypeError      \<comment> \<open>property access on \<^verbatim>\<open>null\<close>\<close>
  | StorageError   \<comment> \<open>whatever \<^verbatim>\<open>localStorage\<close> throws: SecurityError, QuotaExceededError\<close>

text \<open>
  The browser state the script reads and writes.
  \<^item> \<open>link\<close>: \<^verbatim>\<open>None\<close> when \<^verbatim>\<open>getElementById("bsTheme")\<close> gave \<^verbatim>\<open>null\<close>, else the element's
    \<^verbatim>\<open>href\<close>;
  \<^item> \<open>btn\<close>: \<^verbatim>\<open>None\<close> when \<^verbatim>\<open>getElementById("themeToggle")\<close> gave \<^verbatim>\<open>null\<close>, else the element's
    \<^verbatim>\<open>innerHTML\<close>;
  \<^item> \<open>body_theme\<close>: \<^verbatim>\<open>document.body.dataset.theme\<close>, \<open>None\<close> for \<^verbatim>\<open>undefined\<close>. The body element
    itself exists whenever \<^verbatim>\<open>init\<close> runs, which the script's \<^verbatim>\<open>readyState\<close> test sees to;
  \<^item> \<open>click_listeners\<close>: how many click listeners \<^verbatim>\<open>init\<close> has added to \<open>btn\<close>;
  \<^item> \<open>store\<close>: the items of \<^verbatim>\<open>localStorage\<close>;
  \<^item> \<open>get_throws\<close>, \<open>set_throws\<close>: whether reading, respectively writing,
    \<^verbatim>\<open>localStorage\<close> throws in this browser.
\<close>

record page =
  link :: "string option"
  btn :: "string option"
  body_theme :: "string option"
  click_listeners :: nat
  store :: "string \<rightharpoonup> string"
  get_throws :: bool
  set_throws :: bool

subsection \<open>Constants of the script\<close>

definition THEME_KEY :: string where
  "THEME_KEY = ''taw_dash_theme''"

definition THEMES :: "string \<rightharpoonup> string" where
  "THEMES = [''dark'' \<mapsto> ''https://cdn.jsdelivr.net/npm/bootswatch@5.3.3/dist/darkly/bootstrap.min.css'',
             ''light'' \<mapsto> ''https://cdn.jsdelivr.net/npm/bootswatch@5.3.3/dist/lux/bootstrap.min.css'']"

text \<open>\<^verbatim>\<open>THEMES[t]\<close>; a key that is not in the table gives \<^verbatim>\<open>undefined\<close>, which an \<^verbatim>\<open>href\<close>
  stores as that word.\<close>

definition THEMES_at :: "string \<Rightarrow> string" where
  "THEMES_at t = (case THEMES t of None \<Rightarrow> ''undefined'' | Some u \<Rightarrow> u)"

text \<open>The two contents \<^verbatim>\<open>apply\<close> gives the toggle control: the moon and the word Dark
  when light is active, the sun and the word Light otherwise.\<close>

definition DARK_ACTION :: string where
  \<open>DARK_ACTION = ''<i class="bi bi-moon-stars"></i><span class="ms-1">Dark</span>''\<close>

definition LIGHT_ACTION :: string where
  \<open>LIGHT_ACTION = ''<i class="bi bi-sun"></i><span class="ms-1">Light</span>''\<close>

subsection \<open>Primitive statements\<close>

text \<open>Sequencing two statements: an exception of the first skips the second.\<close>

definition seq :: "js_error + page \<Rightarrow> (page \<Rightarrow> js_error + page) \<Rightarrow> js_error + page" where
  "seq r f = (case r of Inl e \<Rightarrow> Inl e | Inr s \<Rightarrow> f s)"

text \<open>\<^verbatim>\<open>try { ... } catch(e) {}\<close> around a statement started in state \<open>s\<close>: the exception
  is dropped and execution goes on from \<open>s\<close>.\<close>

definition try_catch :: "js_error + page \<Rightarrow> page \<Rightarrow> js_error + page" where
  "try_catch r s = (case r of Inl e \<Rightarrow> Inr s | Inr s' \<Rightarrow> Inr s')"

definition set_link_href :: "string \<Rightarrow> page \<Rightarrow> js_error + page" where
  "set_link_href u s =
     (case link s of None \<Rightarrow> Inl TypeError | Some h \<Rightarrow> Inr (s\<lparr>link := Some u\<rparr>))"

definition set_dataset_theme :: "string \<Rightarrow> page \<Rightarrow> js_error + page" where
  "set_dataset_theme t s = Inr (s\<lparr>body_theme := Some t\<rparr>)"

definition set_btn_innerHTML :: "string \<Rightarrow> page \<Rightarrow> js_error + page" where
  "set_btn_innerHTML c s =
     (case btn s of None \<Rightarrow> Inl TypeError | Some h \<Rightarrow> Inr (s\<lparr>btn := Some c\<rparr>))"

definition add_click_listener :: "page \<Rightarrow> js_error + page" where
  "add_click_listener s =
     (case btn s of None \<Rightarrow> Inl TypeError
      | Some h \<Rightarrow> Inr (s\<lparr>click_listeners := Suc (click_listeners s)\<rparr>))"

definition localStorage_setItem :: "string \<Rightarrow> string \<Rightarrow> page \<Rightarrow> js_error + page" where
  "localStorage_setItem k v s =
     (if set_throws s then Inl StorageError else Inr (s\<lparr>store := (store s)(k \<mapsto> v)\<rparr>))"

definition localStorage_getItem :: "string \<Rightarrow> page \<Rightarrow> js_error + string option" where
  "localStorage_getItem k s = (if get_throws s then Inl StorageError else Inr (store s k))"

subsection \<open>apply\<close>

text \<open>
  \<^verbatim>\<open>const t = theme === "light" ? "light" : "dark";\<close>
\<close>

definition normalize_theme :: "jsval \<Rightarrow> string" where
  "normalize_theme theme = (if theme = JSString ''light'' then ''light'' else ''dark'')"

text \<open>The content \<^verbatim>\<open>apply\<close> chooses for the control: \<^verbatim>\<open>t === "light" ? (moon, Dark) : (sun, Light)\<close>.\<close>

definition toggle_content :: "string \<Rightarrow> string" where
  "toggle_content t = (if t = ''light'' then DARK_ACTION else LIGHT_ACTION)"

text \<open>
  \<^verbatim>\<open>function apply(theme)\<close>, statement by statement: the guarded \<^verbatim>\<open>href\<close>, the body's tag, the
  write to storage inside its \<^verbatim>\<open>try\<close>, the guarded content of the control.
\<close>

definition apply_theme :: "jsval \<Rightarrow> page \<Rightarrow> js_error + page" where
  "apply_theme theme s =
     (let t = normalize_theme theme in
      seq (if link s \<noteq> None then set_link_href (THEMES_at t) s else Inr s) (\<lambda>s1.
      seq (set_dataset_theme t s1) (\<lambda>s2.
      seq (try_catch (localStorage_setItem THEME_KEY t s2) s2) (\<lambda>s3.
      if btn s3 \<noteq> None then set_btn_innerHTML (toggle_content t) s3 else Inr s3))))"

subsection \<open>The click handler and init\<close>

text \<open>
  \<^verbatim>\<open>const cur = document.body.dataset.theme || "dark";\<close>: an unset tag and the empty string
  are falsy.
\<close>

definition current_theme :: "page \<Rightarrow> string" where
  "current_theme s =
     (case body_theme s of None \<Rightarrow> ''dark'' | Some c \<Rightarrow> if c = '''' then ''dark'' else c)"

text \<open>\<^verbatim>\<open>cur === "dark" ? "light" : "dark"\<close>\<close>

definition flip_theme :: "string \<Rightarrow> string" where
  "flip_theme cur = (if cur = ''dark'' then ''light'' else ''dark'')"

definition on_click :: "page \<Rightarrow> js_error + page" where
  "on_click s = (let cur = current_theme s in apply_theme (JSString (flip_theme cur)) s)"

text \<open>
  The first half of \<^verbatim>\<open>init\<close>: \<^verbatim>\<open>t\<close> starts as \<^verbatim>\<open>"dark"\<close>; inside a \<^verbatim>\<open>try\<close> the saved value is read
  and replaces \<^verbatim>\<open>t\<close> when it is truthy (\<^verbatim>\<open>null\<close> and the empty string are not); an exception
  leaves \<^verbatim>\<open>t\<close> as it was.
\<close>

definition saved_theme :: "page \<Rightarrow> string" where
  "saved_theme s =
     (case localStorage_getItem THEME_KEY s of
        Inl e \<Rightarrow> ''dark''
      | Inr saved \<Rightarrow>
          (case saved of None \<Rightarrow> ''dark'' | Some v \<Rightarrow> if v = '''' then ''dark'' else v))"

definition init :: "page \<Rightarrow> js_error + page" where
  "init s =
     seq (apply_theme (JSString (saved_theme s)) s) (\<lambda>s1.
     if btn s1 \<noteq> None then add_click_listener s1 else Inr s1)"

text \<open>What the user does to a page: load it (\<^verbatim>\<open>init\<close> runs) or click the control (the
  listener runs).\<close>

datatype event = Initialize | Click

fun step :: "event \<Rightarrow> page \<Rightarrow> js_error + page" where
  "step Initialize s = init s"
| "step Click s = on_click s"

fun run :: "event list \<Rightarrow> page \<Rightarrow> js_error + page" where
  "run [] s = Inr s"
| "run (e # es) s = seq (step e s) (run es)"

text \<open>The argument of the \<^verbatim>\<open>apply\<close> call an event makes, as computed at its call site.\<close>

fun requested :: "event \<Rightarrow> page \<Rightarrow> jsval" where
  "requested Initialize s = JSString (saved_theme s)"
| "requested Click s = JSString (flip_theme (current_theme s))"

subsection \<open>Observations\<close>

text \<open>The value stored under the script's key.\<close>

definition persisted :: "page \<Rightarrow> string option" where
  "persisted s = store s THEME_KEY"

text \<open>The theme whose name the control shows, if it shows one of the two contents
  \<^verbatim>\<open>apply\<close> writes: the theme a click would switch to.\<close>

definition offered_theme :: "page \<Rightarrow> string option" where
  "offered_theme s =
     (case btn s of
        None \<Rightarrow> None
      | Some c \<Rightarrow>
          if c = DARK_ACTION then Some ''dark''
          else if c = LIGHT_ACTION then Some ''light''
          else None)"

text \<open>What is visible of a page: the stylesheet reference, the tag of the body and the
  content of the control.\<close>

definition dom_view :: "page \<Rightarrow> string option \<times> string option \<times> string option" where
  "dom_view s = (link s, body_theme s, btn s)"

definition observe :: "js_error + page \<Rightarrow> js_error + string option \<times> string option \<times> string option" where
  "observe r = map_sum id dom_view r"

text \<open>Concrete pages: a first visit with both elements in the markup and a working
  storage, and the same page without the two elements.\<close>

definition first_visit :: page where
  "first_visit =
     \<lparr>link = Some ''bootstrap.min.css'', btn = Some ''Theme'', body_theme = None,
      click_listeners = 0, store = Map.empty, get_throws = False, set_throws = False\<rparr>"

definition bare_page :: page where
  "bare_page = first_visit\<lparr>link := None, btn := None\<rparr>"

text \<open>A visit with \<^verbatim>\<open>light\<close> saved earlier; one with a value the script never writes; one
  in a browser where every access to the storage throws; a page showing the dark theme.\<close>

definition returning_visit :: page where
  "returning_visit = first_visit\<lparr>store := [THEME_KEY \<mapsto> ''light'']\<rparr>"

definition tampered_visit :: page where
  "tampered_visit = first_visit\<lparr>store := [THEME_KEY \<mapsto> ''blue'']\<rparr>"

definition blocked_visit :: page where
  "blocked_visit = first_visit\<lparr>get_throws := True, set_throws := True\<rparr>"

definition dark_page :: page where
  "dark_page = first_visit\<lparr>body_theme := Some ''dark''\<rparr>"

text \<open>The same two pages in a browser that reads the storage but throws on every write.\<close>

definition unwritable_visit :: page where
  "unwritable_visit = first_visit\<lparr>set_throws := True\<rparr>"

definition unwritable_dark_page :: page where
  "unwritable_dark_page = dark_page\<lparr>set_throws := True\<rparr>"

text \<open>A visit with \<^verbatim>\<open>light\<close> saved earlier, in a browser that now throws on every read of the
  storage.\<close>

definition unreadable_returning_visit :: page where
  "unreadable_returning_visit = returning_visit\<lparr>get_throws := True\<rparr>"

section \<open>Properties\<close>

subsection \<open>What each operation computes\<close>

lemmas prim_defs = seq_def try_catch_def set_link_href_def set_dataset_theme_def
  set_btn_innerHTML_def add_click_listener_def localStorage_setItem_def localStorage_getItem_def

lemma actions_differ: "DARK_ACTION \<noteq> LIGHT_ACTION"
  by (simp add: DARK_ACTION_def LIGHT_ACTION_def)

lemma THEMES_at_dark:
  "THEMES_at ''dark'' = ''https://cdn.jsdelivr.net/npm/bootswatch@5.3.3/dist/darkly/bootstrap.min.css''"
  by (simp add: THEMES_at_def THEMES_def)

lemma THEMES_at_light:
  "THEMES_at ''light'' = ''https://cdn.jsdelivr.net/npm/bootswatch@5.3.3/dist/lux/bootstrap.min.css''"
  by (simp add: THEMES_at_def THEMES_def)

lemma normalize_cases: "normalize_theme v = ''dark'' \<or> normalize_theme v = ''light''"
  by (simp add: normalize_theme_def)

lemma normalize_JSString_normalize: "normalize_theme (JSString (normalize_theme v)) = normalize_theme v"
  by (simp add: normalize_theme_def)

lemma flip_theme_differs: "flip_theme c \<noteq> c"
  by (simp add: flip_theme_def)

text \<open>\<^verbatim>\<open>apply\<close> never throws, and this is the state it leaves.\<close>

lemma apply_theme_Inr:
  "apply_theme v s =
     Inr (s\<lparr>link := map_option (\<lambda>h. THEMES_at (normalize_theme v)) (link s),
            body_theme := Some (normalize_theme v),
            store := (if set_throws s then store s else (store s)(THEME_KEY \<mapsto> normalize_theme v)),
            btn := map_option (\<lambda>h. toggle_content (normalize_theme v)) (btn s)\<rparr>)"
  by (cases s) (simp add: apply_theme_def prim_defs Let_def split: option.splits)

lemma on_click_apply: "on_click s = apply_theme (requested Click s) s"
  by (simp add: on_click_def Let_def)

lemma init_Inr:
  "init s =
     Inr (s\<lparr>link := map_option (\<lambda>h. THEMES_at (normalize_theme (requested Initialize s))) (link s),
            body_theme := Some (normalize_theme (requested Initialize s)),
            store := (if set_throws s then store s
                      else (store s)(THEME_KEY \<mapsto> normalize_theme (requested Initialize s))),
            btn := map_option (\<lambda>h. toggle_content (normalize_theme (requested Initialize s))) (btn s),
            click_listeners := (if btn s = None then click_listeners s
                                else Suc (click_listeners s))\<rparr>)"
  by (cases s) (simp add: init_def apply_theme_Inr seq_def add_click_listener_def split: option.splits)

text \<open>Either event ends in the state \<^verbatim>\<open>apply\<close> leaves, up to the listener count.\<close>

lemma step_Inr:
  "step e s =
     Inr (s\<lparr>link := map_option (\<lambda>h. THEMES_at (normalize_theme (requested e s))) (link s),
            body_theme := Some (normalize_theme (requested e s)),
            store := (if set_throws s then store s
                      else (store s)(THEME_KEY \<mapsto> normalize_theme (requested e s))),
            btn := map_option (\<lambda>h. toggle_content (normalize_theme (requested e s))) (btn s),
            click_listeners := (if e = Click \<or> btn s = None then click_listeners s
                                else Suc (click_listeners s))\<rparr>)"
proof (cases e)
  case Initialize
  then show ?thesis by (simp add: init_Inr)
next
  case Click
  then show ?thesis by (simp add: on_click_apply apply_theme_Inr del: requested.simps)
qed

lemma step_total: "\<exists>s'. step e s = Inr s'"
  by (simp add: step_Inr)

lemma step_fields:
  assumes "step e s = Inr s'"
  shows "link s' = map_option (\<lambda>h. THEMES_at (normalize_theme (requested e s))) (link s)"
    and "body_theme s' = Some (normalize_theme (requested e s))"
    and "store s' = (if set_throws s then store s
                     else (store s)(THEME_KEY \<mapsto> normalize_theme (requested e s)))"
    and "btn s' = map_option (\<lambda>h. toggle_content (normalize_theme (requested e s))) (btn s)"
    and "get_throws s' = get_throws s"
    and "set_throws s' = set_throws s"
  using assms unfolding step_Inr by auto

lemma seq_Inr: "seq (Inr s) f = f s"
  by (simp add: seq_def)

lemma run_Cons_Inr: "step e s = Inr s1 \<Longrightarrow> run (e # es) s = run es s1"
  by (simp add: seq_Inr)

lemma run_append: "run (es @ fs) s = seq (run es s) (run fs)"
proof (induction es arbitrary: s)
  case Nil
  show ?case by (simp add: seq_Inr)
next
  case (Cons e es)
  obtain s1 where s1: "step e s = Inr s1"
    using step_total by blast
  have "run ((e # es) @ fs) s = run (es @ fs) s1"
    using s1 by (simp add: seq_Inr)
  also have "\<dots> = seq (run es s1) (run fs)"
    by (rule Cons.IH)
  also have "run es s1 = run (e # es) s"
    using s1 by (simp add: seq_Inr)
  finally show ?case .
qed

text \<open>No sequence of events throws; the elements stay present or absent as they were and
  the storage keeps failing or working as it did.\<close>

lemma run_total: "\<exists>s'. run es s = Inr s'"
proof (induction es arbitrary: s)
  case Nil
  show ?case by simp
next
  case (Cons e es)
  obtain s1 where s1: "step e s = Inr s1"
    using step_total by blast
  obtain s' where "run es s1 = Inr s'"
    using Cons.IH by blast
  then have "run (e # es) s = Inr s'"
    using s1 by (simp add: seq_Inr)
  then show ?case ..
qed

lemma run_keeps:
  "run es s = Inr s' \<Longrightarrow>
   (link s' = None) = (link s = None) \<and> (btn s' = None) = (btn s = None) \<and>
   get_throws s' = get_throws s \<and> set_throws s' = set_throws s"
proof (induction es arbitrary: s)
  case Nil
  then show ?case by simp
next
  case (Cons e es)
  obtain s1 where s1: "step e s = Inr s1"
    using step_total by blast
  with Cons.prems have r: "run es s1 = Inr s'"
    by (simp add: seq_Inr)
  show ?case
    using Cons.IH [OF r] step_fields(1,4,5,6) [OF s1] by simp
qed

lemma offered_theme_toggle_content:
  "btn s = map_option (\<lambda>h. toggle_content t) b \<Longrightarrow>
   offered_theme s = map_option (\<lambda>h. if t = ''light'' then ''dark'' else ''light'') b"
  by (cases b) (simp_all add: offered_theme_def toggle_content_def actions_differ actions_differ [symmetric])

text \<open>The visible result of an event depends on the visible state and on what the storage
  returns, not on whether a write succeeds.\<close>

lemma current_theme_cong: "body_theme a = body_theme b \<Longrightarrow> current_theme a = current_theme b"
  by (simp add: current_theme_def)

lemma observe_apply_theme:
  "observe (apply_theme v s) =
     Inr (map_option (\<lambda>h. THEMES_at (normalize_theme v)) (link s), Some (normalize_theme v),
          map_option (\<lambda>h. toggle_content (normalize_theme v)) (btn s))"
  by (simp add: apply_theme_Inr observe_def dom_view_def)

lemma observe_step:
  "observe (step e s) =
     Inr (map_option (\<lambda>h. THEMES_at (normalize_theme (requested e s))) (link s),
          Some (normalize_theme (requested e s)),
          map_option (\<lambda>h. toggle_content (normalize_theme (requested e s))) (btn s))"
  by (simp add: step_Inr observe_def dom_view_def)

lemma observe_clicks:
  "dom_view a = dom_view b \<Longrightarrow>
   observe (run (replicate n Click) a) = observe (run (replicate n Click) b)"
proof (induction n arbitrary: a b)
  case 0
  then show ?case by (simp add: observe_def)
next
  case (Suc n)
  obtain a1 where a1: "step Click a = Inr a1"
    using step_total by blast
  obtain b1 where b1: "step Click b = Inr b1"
    using step_total by blast
  have "body_theme a = body_theme b" and "link a = link b" and "btn a = btn b"
    using Suc.prems by (simp_all add: dom_view_def)
  moreover from this have "current_theme a = current_theme b"
    by (simp add: current_theme_def)
  ultimately have "observe (step Click a) = observe (step Click b)"
    by (simp add: observe_step del: step.simps)
  then have "dom_view a1 = dom_view b1"
    using a1 b1 by (simp add: observe_def)
  then have "observe (run (replicate n Click) a1) = observe (run (replicate n Click) b1)"
    by (rule Suc.IH)
  then show ?case
    using a1 b1 by (simp add: seq_Inr)
qed

subsection \<open>Runs of events\<close>

lemma run_snoc:
  "run es s = Inr s1 \<Longrightarrow> run (es @ [e]) s = step e s1"
  by (simp add: run_append seq_Inr seq_def split: sum.splits)

text \<open>While every write throws, the items of the storage never change.\<close>

lemma run_store_unwritable:
  "set_throws s \<Longrightarrow> run es s = Inr s' \<Longrightarrow> store s' = store s"
proof (induction es arbitrary: s)
  case Nil
  then show ?case by simp
next
  case (Cons e es)
  obtain s1 where s1: "step e s = Inr s1"
    using step_total by blast
  with Cons.prems(2) have r: "run es s1 = Inr s'"
    by (simp add: seq_Inr)
  have "set_throws s1"
    using step_fields(6) [OF s1] Cons.prems(1) by simp
  then have "store s' = store s1"
    using r by (rule Cons.IH)
  then show ?case
    using step_fields(3) [OF s1] Cons.prems(1) by simp
qed

text \<open>What \<^verbatim>\<open>init\<close> makes visible does not depend on what the page showed before, only on
  which elements exist and on the storage: running it again is what a reload does.\<close>

lemma init_forgets_page:
  "observe (init (s\<lparr>link := map_option (\<lambda>h. u) (link s), body_theme := x,
                       btn := map_option (\<lambda>h. c) (btn s)\<rparr>)) = observe (init s)"
  by (simp add: init_Inr observe_def dom_view_def saved_theme_def localStorage_getItem_def
      option.map_comp comp_def)

text \<open>Neither event looks at whether a write would succeed when it picks its theme.\<close>

lemma requested_ignores_set_throws:
  "requested e (s\<lparr>set_throws := w\<rparr>) = requested e s"
  by (cases e) (simp_all add: saved_theme_def localStorage_getItem_def current_theme_def)

subsection \<open>What init applies\<close>

text \<open>\<^verbatim>\<open>init\<close> asks for \<^verbatim>\<open>light\<close> exactly when the storage can be read and holds \<^verbatim>\<open>light\<close>
  under the key; in every other case the theme is \<^verbatim>\<open>dark\<close>.\<close>

lemma saved_theme_light:
  "(saved_theme s = ''light'') = (\<not> get_throws s \<and> persisted s = Some ''light'')"
  by (auto simp: saved_theme_def localStorage_getItem_def persisted_def split: option.splits)

lemma init_applies:
  "normalize_theme (JSString (saved_theme s)) =
     (if \<not> get_throws s \<and> persisted s = Some ''light'' then ''light'' else ''dark'')"
  by (simp add: normalize_theme_def saved_theme_light)

lemma init_fields:
  assumes "init s = Inr s'"
  shows "link s' = map_option (\<lambda>h. THEMES_at (normalize_theme (requested Initialize s))) (link s)"
    and "body_theme s' = Some (normalize_theme (requested Initialize s))"
    and "persisted s' = (if set_throws s then persisted s
                         else Some (normalize_theme (requested Initialize s)))"
    and "btn s' = map_option (\<lambda>h. toggle_content (normalize_theme (requested Initialize s))) (btn s)"
  using assms unfolding init_Inr by (auto simp: persisted_def)

lemma init_total: "\<exists>s'. init s = Inr s'"
  by (simp add: init_Inr)

subsection \<open>Normalisation of the argument\<close>

text \<open>
  Claim C3. Whatever value \<^verbatim>\<open>apply\<close> is given, the theme it works with is \<^verbatim>\<open>light\<close> exactly
  when the value is the string \<^verbatim>\<open>light\<close>, and \<^verbatim>\<open>dark\<close> for every other value, strings and
  non-strings alike. The call behaves as the call on the normalised string does, and
  the stylesheet reference, the tag of the body, the stored value and the content of the
  control are all computed from the normalised theme alone.
\<close>

theorem apply_normalizes_input:
  "(normalize_theme v = ''light'') = (v = JSString ''light'') \<and>
   (normalize_theme v = ''dark'') = (v \<noteq> JSString ''light'') \<and>
   apply_theme v s = apply_theme (JSString (normalize_theme v)) s \<and>
   apply_theme v s =
     Inr (s\<lparr>link := map_option (\<lambda>h. THEMES_at (normalize_theme v)) (link s),
            body_theme := Some (normalize_theme v),
            store := (if set_throws s then store s
                      else (store s)(THEME_KEY \<mapsto> normalize_theme v)),
            btn := map_option (\<lambda>h. toggle_content (normalize_theme v)) (btn s)\<rparr>)"
proof -
  have "(normalize_theme v = ''light'') = (v = JSString ''light'')"
    by (simp add: normalize_theme_def)
  moreover have "(normalize_theme v = ''dark'') = (v \<noteq> JSString ''light'')"
    by (simp add: normalize_theme_def)
  moreover have "apply_theme v s = apply_theme (JSString (normalize_theme v)) s"
    by (simp only: apply_theme_Inr normalize_JSString_normalize)
  ultimately show ?thesis
    using apply_theme_Inr [of v s] by blast
qed

subsection \<open>Idempotence\<close>

text \<open>
  Claim C9. Calling \<^verbatim>\<open>apply\<close> a second time with the same argument changes nothing: the
  whole page state after the second call, and so the tag, the stylesheet reference, the
  content of the control and the stored value, is the state after the first.
\<close>

theorem apply_idempotent:
  "\<exists>s1. apply_theme v s = Inr s1 \<and> apply_theme v s1 = Inr s1"
  by (simp add: apply_theme_Inr option.map_comp comp_def)

subsection \<open>Missing elements\<close>

text \<open>
  Claim C8. For every argument and every page, whether the stylesheet link is there or
  not (\<open>l\<close>) and whether the toggle control is there or not (\<open>b\<close>), \<^verbatim>\<open>apply\<close> returns
  without an exception. The body is always tagged, the write to storage is always
  attempted (the value is stored unless the write throws), an element that is present
  is updated and an element that is absent stays absent.
\<close>

theorem apply_tolerates_missing_elements:
  "\<exists>s'. apply_theme v (s\<lparr>link := l, btn := b\<rparr>) = Inr s' \<and>
        link s' = map_option (\<lambda>h. THEMES_at (normalize_theme v)) l \<and>
        btn s' = map_option (\<lambda>h. toggle_content (normalize_theme v)) b \<and>
        body_theme s' = Some (normalize_theme v) \<and>
        persisted s' = (if set_throws s then persisted s else Some (normalize_theme v))"
  by (simp add: apply_theme_Inr persisted_def)

theorem apply_tolerates_missing_elements_witness:
  "bare_page = first_visit\<lparr>link := None, btn := None\<rparr> \<and>
   (\<exists>s'. apply_theme (JSString ''light'') bare_page = Inr s' \<and>
      link s' = None \<and> btn s' = None \<and>
      body_theme s' = Some ''light'' \<and> persisted s' = Some ''light'')"
  using apply_tolerates_missing_elements
    [where v = "JSString ''light''" and s = first_visit and l = None and b = None]
  by (simp add: bare_page_def normalize_theme_def persisted_def first_visit_def)

text \<open>The three cases with an element missing, spelt out as whole states.\<close>

lemma apply_without_elements:
  "apply_theme v (s\<lparr>link := None\<rparr>) =
     Inr (s\<lparr>link := None, body_theme := Some (normalize_theme v),
            store := (if set_throws s then store s
                      else (store s)(THEME_KEY \<mapsto> normalize_theme v)),
            btn := map_option (\<lambda>h. toggle_content (normalize_theme v)) (btn s)\<rparr>) \<and>
   apply_theme v (s\<lparr>btn := None\<rparr>) =
     Inr (s\<lparr>link := map_option (\<lambda>h. THEMES_at (normalize_theme v)) (link s),
            body_theme := Some (normalize_theme v),
            store := (if set_throws s then store s
                      else (store s)(THEME_KEY \<mapsto> normalize_theme v)),
            btn := None\<rparr>) \<and>
   apply_theme v (s\<lparr>link := None, btn := None\<rparr>) =
     Inr (s\<lparr>link := None, body_theme := Some (normalize_theme v),
            store := (if set_throws s then store s
                      else (store s)(THEME_KEY \<mapsto> normalize_theme v)),
            btn := None\<rparr>)"
  by (cases s) (simp add: apply_theme_Inr)

subsection \<open>The tag is always well formed\<close>

text \<open>
  Claim C10. After any call of \<^verbatim>\<open>apply\<close>, on any page (elements present or not, storage
  working or not), the tag of the body is set and is \<^verbatim>\<open>dark\<close> or \<^verbatim>\<open>light\<close>. The click handler
  reads the tag only: an unset tag counts as \<^verbatim>\<open>dark\<close>, and replacing the storage (its
  items \<open>m\<close>, whether it throws on reading \<open>g\<close> or on writing \<open>w\<close>) changes neither the
  theme the handler asks for nor what becomes visible. So a click after \<^verbatim>\<open>apply\<close> flips a
  well-formed theme to the other well-formed theme.
\<close>

theorem tag_well_formed_after_apply:
  "\<exists>s1 s2. apply_theme v s = Inr s1 \<and>
     body_theme s1 = Some (normalize_theme v) \<and>
     (body_theme s1 = Some ''dark'' \<or> body_theme s1 = Some ''light'') \<and>
     current_theme s1 = normalize_theme v \<and>
     current_theme (s1\<lparr>body_theme := None\<rparr>) = ''dark'' \<and>
     requested Click (s1\<lparr>store := m, get_throws := g, set_throws := w\<rparr>) = requested Click s1 \<and>
     observe (on_click (s1\<lparr>store := m, get_throws := g, set_throws := w\<rparr>)) = observe (on_click s1) \<and>
     on_click s1 = Inr s2 \<and>
     body_theme s2 = Some (flip_theme (normalize_theme v)) \<and>
     (body_theme s2 = Some ''dark'' \<or> body_theme s2 = Some ''light'') \<and>
     body_theme s2 \<noteq> body_theme s1"
proof -
  define s1 where "s1 = s\<lparr>link := map_option (\<lambda>h. THEMES_at (normalize_theme v)) (link s),
            body_theme := Some (normalize_theme v),
            store := (if set_throws s then store s
                      else (store s)(THEME_KEY \<mapsto> normalize_theme v)),
            btn := map_option (\<lambda>h. toggle_content (normalize_theme v)) (btn s)\<rparr>"
  have a: "apply_theme v s = Inr s1"
    by (simp add: s1_def apply_theme_Inr)
  have tag: "body_theme s1 = Some (normalize_theme v)"
    by (simp add: s1_def)
  have wf: "body_theme s1 = Some ''dark'' \<or> body_theme s1 = Some ''light''"
    using tag normalize_cases [of v] by simp
  have cur: "current_theme s1 = normalize_theme v"
    using tag normalize_cases [of v] by (auto simp: current_theme_def)
  have unset: "current_theme (s1\<lparr>body_theme := None\<rparr>) = ''dark''"
    by (simp add: current_theme_def)
  have req: "requested Click (s1\<lparr>store := m, get_throws := g, set_throws := w\<rparr>) = requested Click s1"
    by (simp add: current_theme_def)
  have obs: "observe (on_click (s1\<lparr>store := m, get_throws := g, set_throws := w\<rparr>)) = observe (on_click s1)"
    using req by (simp add: on_click_apply observe_apply_theme del: requested.simps)
  obtain s2 where c: "on_click s1 = Inr s2"
    using step_total [of Click s1] by auto
  have tag2: "body_theme s2 = Some (flip_theme (normalize_theme v))"
    using c cur by (simp add: on_click_apply apply_theme_Inr normalize_theme_def flip_theme_def, auto)
  have wf2: "body_theme s2 = Some ''dark'' \<or> body_theme s2 = Some ''light''"
    using tag2 by (simp add: flip_theme_def)
  have ne: "body_theme s2 \<noteq> body_theme s1"
    using tag tag2 flip_theme_differs [of "normalize_theme v"] by simp
  show ?thesis
    using a tag wf cur unset req obs c tag2 wf2 ne by blast
qed

subsection \<open>Round trip through the storage\<close>

text \<open>
  Claim C4, as stated, fails where the read of the storage throws: \<^verbatim>\<open>light\<close> is stored under
  the key, but the \<^verbatim>\<open>catch\<close> in \<^verbatim>\<open>init\<close> leaves \<^verbatim>\<open>t\<close> at \<^verbatim>\<open>"dark"\<close>, and the page comes up dark
  with the control offering the switch to light.
\<close>

theorem init_unreadable_light_counterexample:
  "persisted unreadable_returning_visit = Some ''light'' \<and>
   localStorage_getItem THEME_KEY unreadable_returning_visit = Inl StorageError \<and>
   observe (init unreadable_returning_visit) =
     Inr (Some ''https://cdn.jsdelivr.net/npm/bootswatch@5.3.3/dist/darkly/bootstrap.min.css'',
          Some ''dark'', Some LIGHT_ACTION)"
  by (simp add: observe_def dom_view_def init_def apply_theme_def saved_theme_def
      normalize_theme_def prim_defs Let_def toggle_content_def THEMES_at_def THEMES_def
      THEME_KEY_def persisted_def unreadable_returning_visit_def returning_visit_def
      first_visit_def)

text \<open>
  Claim C4, amended. If \<^verbatim>\<open>light\<close> is stored under the key and reading the storage does not
  throw, then \<^verbatim>\<open>init\<close> alone, on any page and so on a freshly loaded one, applies \<^verbatim>\<open>light\<close>:
  it returns without an exception, the body is tagged \<^verbatim>\<open>light\<close>, the stylesheet link, if
  there is one, points to the light stylesheet, and the control, if there is one, offers
  the switch to dark.
\<close>

theorem init_reapplies_persisted_light:
  assumes "persisted s = Some ''light''" and "\<not> get_throws s"
  shows "\<exists>s'. init s = Inr s' \<and>
           body_theme s' = Some ''light'' \<and>
           link s' = map_option (\<lambda>h. ''https://cdn.jsdelivr.net/npm/bootswatch@5.3.3/dist/lux/bootstrap.min.css'') (link s) \<and>
           btn s' = map_option (\<lambda>h. DARK_ACTION) (btn s)"
proof -
  have t: "normalize_theme (requested Initialize s) = ''light''"
    using assms by (simp add: init_applies)
  obtain s' where s': "init s = Inr s'"
    using init_total by blast
  have "body_theme s' = Some ''light''"
    using init_fields(2) [OF s'] t by simp
  moreover have "link s' = map_option (\<lambda>h. ''https://cdn.jsdelivr.net/npm/bootswatch@5.3.3/dist/lux/bootstrap.min.css'') (link s)"
    using init_fields(1) [OF s'] t by (simp add: THEMES_at_light)
  moreover have "btn s' = map_option (\<lambda>h. DARK_ACTION) (btn s)"
    using init_fields(4) [OF s'] t by (simp add: toggle_content_def)
  ultimately show ?thesis
    using s' by blast
qed

theorem init_reapplies_persisted_light_witness:
  "persisted returning_visit = Some ''light'' \<and> \<not> get_throws returning_visit \<and>
   (\<exists>s'. init returning_visit = Inr s' \<and>
      body_theme s' = Some ''light'' \<and>
      link s' = Some ''https://cdn.jsdelivr.net/npm/bootswatch@5.3.3/dist/lux/bootstrap.min.css'' \<and>
      btn s' = Some DARK_ACTION)"
proof -
  have h: "persisted returning_visit = Some ''light''"
    and g: "\<not> get_throws returning_visit"
    by (simp_all add: persisted_def returning_visit_def first_visit_def)
  have l: "link returning_visit = Some ''bootstrap.min.css''"
    and b: "btn returning_visit = Some ''Theme''"
    by (simp_all add: returning_visit_def first_visit_def)
  show ?thesis
    using h g init_reapplies_persisted_light [OF h g] unfolding l b by simp
qed

subsection \<open>Default when nothing can be read\<close>

text \<open>
  Claim C5, as stated, fails in its own second case: in a browser where every access to
  the storage throws, nothing was persisted, \<^verbatim>\<open>init\<close> applies \<^verbatim>\<open>dark\<close>, and still nothing is
  persisted afterwards, since the failed write is dropped by the \<^verbatim>\<open>catch\<close>.
\<close>

theorem init_default_not_persisted_counterexample:
  "persisted blocked_visit = None \<and>
   localStorage_getItem THEME_KEY blocked_visit = Inl StorageError \<and>
   map_sum id body_theme (init blocked_visit) = Inr (Some ''dark'') \<and>
   map_sum id persisted (init blocked_visit) = Inr None"
  by (simp add: init_def apply_theme_def saved_theme_def normalize_theme_def prim_defs Let_def
      persisted_def blocked_visit_def first_visit_def)

text \<open>
  Claim C5, amended. If no value is persisted under the key, or reading the storage
  throws, \<^verbatim>\<open>init\<close> applies \<^verbatim>\<open>dark\<close>: it returns without an exception, the body is tagged
  \<^verbatim>\<open>dark\<close>, the stylesheet link, if there is one, points to the dark stylesheet, the control,
  if there is one, offers the switch to light; the persisted value afterwards is \<^verbatim>\<open>dark\<close>
  when the write succeeds and is what it was when the write throws.
\<close>

theorem init_default_fallback:
  assumes "persisted s = None \<or> get_throws s"
  shows "\<exists>s'. init s = Inr s' \<and>
           body_theme s' = Some ''dark'' \<and>
           link s' = map_option (\<lambda>h. ''https://cdn.jsdelivr.net/npm/bootswatch@5.3.3/dist/darkly/bootstrap.min.css'') (link s) \<and>
           btn s' = map_option (\<lambda>h. LIGHT_ACTION) (btn s) \<and>
           persisted s' = (if set_throws s then persisted s else Some ''dark'')"
proof -
  have t: "normalize_theme (requested Initialize s) = ''dark''"
    using assms by (auto simp: init_applies)
  obtain s' where s': "init s = Inr s'"
    using init_total by blast
  have "body_theme s' = Some ''dark''"
    using init_fields(2) [OF s'] t by simp
  moreover have "link s' = map_option (\<lambda>h. ''https://cdn.jsdelivr.net/npm/bootswatch@5.3.3/dist/darkly/bootstrap.min.css'') (link s)"
    using init_fields(1) [OF s'] t by (simp add: THEMES_at_dark)
  moreover have "btn s' = map_option (\<lambda>h. LIGHT_ACTION) (btn s)"
    using init_fields(4) [OF s'] t by (simp add: toggle_content_def)
  moreover have "persisted s' = (if set_throws s then persisted s else Some ''dark'')"
    using init_fields(3) [OF s'] t by simp
  ultimately show ?thesis
    using s' by blast
qed

theorem init_default_fallback_witness:
  "(persisted first_visit = None \<and> \<not> get_throws first_visit) \<and>
   (\<exists>s'. init first_visit = Inr s' \<and>
      body_theme s' = Some ''dark'' \<and>
      link s' = Some ''https://cdn.jsdelivr.net/npm/bootswatch@5.3.3/dist/darkly/bootstrap.min.css'' \<and>
      btn s' = Some LIGHT_ACTION \<and>
      persisted s' = Some ''dark'') \<and>
   (persisted blocked_visit = None \<and> get_throws blocked_visit) \<and>
   (\<exists>s'. init blocked_visit = Inr s' \<and>
      body_theme s' = Some ''dark'' \<and>
      link s' = Some ''https://cdn.jsdelivr.net/npm/bootswatch@5.3.3/dist/darkly/bootstrap.min.css'' \<and>
      btn s' = Some LIGHT_ACTION \<and>
      persisted s' = None)"
proof -
  have h1: "persisted first_visit = None" and n1: "\<not> get_throws first_visit"
    and w1: "\<not> set_throws first_visit"
    and l1: "link first_visit = Some ''bootstrap.min.css''"
    and b1: "btn first_visit = Some ''Theme''"
    by (simp_all add: persisted_def first_visit_def)
  have h2: "persisted blocked_visit = None" and g2: "get_throws blocked_visit"
    and w2: "set_throws blocked_visit"
    and l2: "link blocked_visit = Some ''bootstrap.min.css''"
    and b2: "btn blocked_visit = Some ''Theme''"
    by (simp_all add: persisted_def blocked_visit_def first_visit_def)
  have a1: "persisted first_visit = None \<or> get_throws first_visit"
    using h1 by simp
  have a2: "persisted blocked_visit = None \<or> get_throws blocked_visit"
    using g2 by simp
  show ?thesis
    using init_default_fallback [OF a1] init_default_fallback [OF a2]
    unfolding l1 b1 l2 b2 by (simp add: h1 n1 w1 h2 g2 w2)
qed

subsection \<open>Fallback on an invalid stored value\<close>

text \<open>
  Claim C6. For every stored string that is neither \<^verbatim>\<open>dark\<close> nor \<^verbatim>\<open>light\<close> (the empty string
  included), \<^verbatim>\<open>init\<close> applies \<^verbatim>\<open>dark\<close>: the body is tagged \<^verbatim>\<open>dark\<close>, the stylesheet link, if
  there is one, points to the dark stylesheet, and the control, if there is one, offers
  the switch to light.
\<close>

theorem init_invalid_value_falls_back:
  assumes "persisted s = Some v" and "v \<noteq> ''dark''" and "v \<noteq> ''light''"
  shows "\<exists>s'. init s = Inr s' \<and>
           body_theme s' = Some ''dark'' \<and>
           link s' = map_option (\<lambda>h. ''https://cdn.jsdelivr.net/npm/bootswatch@5.3.3/dist/darkly/bootstrap.min.css'') (link s) \<and>
           btn s' = map_option (\<lambda>h. LIGHT_ACTION) (btn s)"
proof -
  have t: "normalize_theme (requested Initialize s) = ''dark''"
    using assms(1,3) by (simp add: init_applies)
  obtain s' where s': "init s = Inr s'"
    using init_total by blast
  have "body_theme s' = Some ''dark''"
    using init_fields(2) [OF s'] t by simp
  moreover have "link s' = map_option (\<lambda>h. ''https://cdn.jsdelivr.net/npm/bootswatch@5.3.3/dist/darkly/bootstrap.min.css'') (link s)"
    using init_fields(1) [OF s'] t by (simp add: THEMES_at_dark)
  moreover have "btn s' = map_option (\<lambda>h. LIGHT_ACTION) (btn s)"
    using init_fields(4) [OF s'] t by (simp add: toggle_content_def)
  ultimately show ?thesis
    using s' by blast
qed

theorem init_invalid_value_falls_back_witness:
  "persisted tampered_visit = Some ''blue'' \<and> ''blue'' \<noteq> ''dark'' \<and> ''blue'' \<noteq> ''light'' \<and>
   (\<exists>s'. init tampered_visit = Inr s' \<and>
      body_theme s' = Some ''dark'' \<and>
      link s' = Some ''https://cdn.jsdelivr.net/npm/bootswatch@5.3.3/dist/darkly/bootstrap.min.css'' \<and>
      btn s' = Some LIGHT_ACTION)"
proof -
  have h: "persisted tampered_visit = Some ''blue''"
    by (simp add: persisted_def tampered_visit_def first_visit_def)
  have d: "''blue'' \<noteq> ''dark''" and i: "''blue'' \<noteq> ''light''"
    by simp_all
  have l: "link tampered_visit = Some ''bootstrap.min.css''"
    and b: "btn tampered_visit = Some ''Theme''"
    by (simp_all add: tampered_visit_def first_visit_def)
  show ?thesis
    using h init_invalid_value_falls_back [OF h d i] unfolding l b by simp
qed

subsection \<open>The three representations\<close>

text \<open>
  Claim C1, as stated, fails: the word on the control names the theme that is not
  current, so it is never equal to the theme just applied. On a first visit with working
  storage, \<^verbatim>\<open>init\<close> persists \<^verbatim>\<open>dark\<close>, tags the body \<^verbatim>\<open>dark\<close>, and the control reads Light.
\<close>

theorem label_names_other_theme_counterexample:
  "\<not> set_throws first_visit \<and>
   map_sum id persisted (run [Initialize] first_visit) = Inr (Some ''dark'') \<and>
   map_sum id body_theme (run [Initialize] first_visit) = Inr (Some ''dark'') \<and>
   map_sum id offered_theme (run [Initialize] first_visit) = Inr (Some ''light'')"
  by (simp add: init_def apply_theme_def saved_theme_def normalize_theme_def prim_defs Let_def
      persisted_def offered_theme_def toggle_content_def actions_differ [symmetric]
      first_visit_def)

text \<open>
  Claim C1, amended. Assume writes to the storage succeed. After any events \<open>es\<close> followed by
  an event \<open>e\<close> (so after \<^verbatim>\<open>init\<close>, and after every click that follows it), let \<open>s1\<close> be the
  page before \<open>e\<close> and \<open>s2\<close> the page after it. The theme \<open>e\<close> applied, the normalised
  argument of its \<^verbatim>\<open>apply\<close> call, is \<^verbatim>\<open>dark\<close> or \<^verbatim>\<open>light\<close>; the persisted value and the tag of
  the body are equal to it; the stylesheet link, if there is one, points to its
  stylesheet; and the control, if there is one, names the other theme.
\<close>

theorem representations_agree_after_events:
  assumes "\<not> set_throws s"
  shows "\<exists>s1 s2. run es s = Inr s1 \<and> run (es @ [e]) s = Inr s2 \<and>
           (normalize_theme (requested e s1) = ''dark'' \<or>
            normalize_theme (requested e s1) = ''light'') \<and>
           body_theme s2 = Some (normalize_theme (requested e s1)) \<and>
           persisted s2 = Some (normalize_theme (requested e s1)) \<and>
           offered_theme s2 =
             map_option (\<lambda>h. flip_theme (normalize_theme (requested e s1))) (btn s) \<and>
           link s2 = map_option (\<lambda>h. THEMES_at (normalize_theme (requested e s1))) (link s)"
proof -
  obtain s1 where s1: "run es s = Inr s1"
    using run_total by blast
  obtain s2 where s2: "step e s1 = Inr s2"
    using step_total by blast
  define t where "t = normalize_theme (requested e s1)"
  have keep: "(link s1 = None) = (link s = None)" "(btn s1 = None) = (btn s = None)"
      "set_throws s1 = set_throws s"
    using run_keeps [OF s1] by simp_all
  have r2: "run (es @ [e]) s = Inr s2"
    using run_snoc [OF s1] s2 by simp
  have wf: "t = ''dark'' \<or> t = ''light''"
    unfolding t_def by (rule normalize_cases)
  have tag: "body_theme s2 = Some t"
    using step_fields(2) [OF s2] by (simp only: t_def)
  have "store s2 = (store s1)(THEME_KEY \<mapsto> t)"
    using step_fields(3) [OF s2] keep(3) assms by (simp only: t_def if_False)
  then have per: "persisted s2 = Some t"
    by (simp add: persisted_def)
  have "btn s2 = map_option (\<lambda>h. toggle_content t) (btn s1)"
    using step_fields(4) [OF s2] by (simp only: t_def)
  then have "offered_theme s2 = map_option (\<lambda>h. if t = ''light'' then ''dark'' else ''light'') (btn s1)"
    by (rule offered_theme_toggle_content)
  then have off: "offered_theme s2 = map_option (\<lambda>h. flip_theme t) (btn s)"
    using wf keep(2) by (cases "btn s"; cases "btn s1") (auto simp: flip_theme_def)
  have "link s2 = map_option (\<lambda>h. THEMES_at t) (link s1)"
    using step_fields(1) [OF s2] by (simp only: t_def)
  then have lnk: "link s2 = map_option (\<lambda>h. THEMES_at t) (link s)"
    using keep(1) by (cases "link s"; cases "link s1") auto
  show ?thesis
    using s1 r2 wf tag per off lnk unfolding t_def by blast
qed

theorem representations_agree_after_events_witness:
  "\<not> set_throws first_visit \<and>
   map_sum id body_theme (run ([Initialize] @ [Click]) first_visit) = Inr (Some ''light'') \<and>
   map_sum id persisted (run ([Initialize] @ [Click]) first_visit) = Inr (Some ''light'') \<and>
   map_sum id offered_theme (run ([Initialize] @ [Click]) first_visit) = Inr (Some ''dark'')"
proof -
  have h: "\<not> set_throws first_visit" and b: "btn first_visit = Some ''Theme''"
    by (simp_all add: first_visit_def)
  obtain s1 s2 where s1: "run [Initialize] first_visit = Inr s1"
    and s2: "run ([Initialize] @ [Click]) first_visit = Inr s2"
    and tag: "body_theme s2 = Some (normalize_theme (requested Click s1))"
    and per: "persisted s2 = Some (normalize_theme (requested Click s1))"
    and off: "offered_theme s2 =
                map_option (\<lambda>h. flip_theme (normalize_theme (requested Click s1))) (btn first_visit)"
    using representations_agree_after_events [OF h, of "[Initialize]" Click] by blast
  have "init first_visit = Inr s1"
    using s1 by (simp add: seq_def split: sum.splits)
  then have "body_theme s1 = Some ''dark''"
    using init_fields(2) [of first_visit s1]
    by (simp add: init_applies persisted_def first_visit_def)
  then have r: "normalize_theme (requested Click s1) = ''light''"
    by (simp add: current_theme_def flip_theme_def normalize_theme_def)
  show ?thesis
    using h tag per off unfolding s2 r b by (simp add: flip_theme_def)
qed

subsection \<open>The toggle\<close>

text \<open>
  Claim C2, as stated, fails where the write to the storage throws: on a page tagged
  \<^verbatim>\<open>dark\<close> a click applies \<^verbatim>\<open>light\<close>, but nothing is persisted.
\<close>

theorem click_not_persisted_counterexample:
  "body_theme unwritable_dark_page = Some ''dark'' \<and>
   map_sum id body_theme (on_click unwritable_dark_page) = Inr (Some ''light'') \<and>
   map_sum id persisted (on_click unwritable_dark_page) = Inr None"
  by (simp add: on_click_def current_theme_def flip_theme_def apply_theme_def
      normalize_theme_def prim_defs Let_def persisted_def
      unwritable_dark_page_def dark_page_def first_visit_def)

text \<open>
  Claim C2, amended. From every page, a click returns without an exception and changes
  the tag of the body and the theme read from it: no click is a no-op. From a page
  tagged \<^verbatim>\<open>dark\<close>, one click gives the tag \<^verbatim>\<open>light\<close> and a control, if there is one, that
  offers the switch to dark; a second click gives the tag \<^verbatim>\<open>dark\<close> and a control that
  offers the switch to light. After each click the persisted value is the theme applied
  when the write succeeds, and is what it was when the write throws.
\<close>

theorem click_toggles:
  "(\<exists>s1. on_click s = Inr s1 \<and>
      body_theme s1 = Some (flip_theme (current_theme s)) \<and>
      current_theme s1 \<noteq> current_theme s \<and>
      body_theme s1 \<noteq> body_theme s) \<and>
   (body_theme s = Some ''dark'' \<longrightarrow>
     (\<exists>s1 s2. on_click s = Inr s1 \<and>
        body_theme s1 = Some ''light'' \<and>
        btn s1 = map_option (\<lambda>h. DARK_ACTION) (btn s) \<and>
        persisted s1 = (if set_throws s then persisted s else Some ''light'') \<and>
        on_click s1 = Inr s2 \<and>
        body_theme s2 = Some ''dark'' \<and>
        btn s2 = map_option (\<lambda>h. LIGHT_ACTION) (btn s) \<and>
        persisted s2 = (if set_throws s then persisted s else Some ''dark'')))"
proof -
  obtain s1 where s1: "step Click s = Inr s1"
    using step_total by blast
  have c1: "on_click s = Inr s1"
    using s1 by simp
  have n: "normalize_theme (requested Click s) = flip_theme (current_theme s)"
    by (simp add: normalize_theme_def flip_theme_def)
  have tag1: "body_theme s1 = Some (flip_theme (current_theme s))"
    using step_fields(2) [OF s1] n by (simp del: requested.simps)
  have cur1: "current_theme s1 = flip_theme (current_theme s)"
    using tag1 by (simp add: current_theme_def flip_theme_def)
  have ne_cur: "current_theme s1 \<noteq> current_theme s"
    using cur1 flip_theme_differs [of "current_theme s"] by simp
  have ne_tag: "body_theme s1 \<noteq> body_theme s"
    using ne_cur current_theme_cong [of s1 s] by blast
  have first: "\<exists>s1. on_click s = Inr s1 \<and>
      body_theme s1 = Some (flip_theme (current_theme s)) \<and>
      current_theme s1 \<noteq> current_theme s \<and> body_theme s1 \<noteq> body_theme s"
    using c1 tag1 ne_cur ne_tag by blast
  have second: "\<exists>s1 s2. on_click s = Inr s1 \<and>
        body_theme s1 = Some ''light'' \<and>
        btn s1 = map_option (\<lambda>h. DARK_ACTION) (btn s) \<and>
        persisted s1 = (if set_throws s then persisted s else Some ''light'') \<and>
        on_click s1 = Inr s2 \<and>
        body_theme s2 = Some ''dark'' \<and>
        btn s2 = map_option (\<lambda>h. LIGHT_ACTION) (btn s) \<and>
        persisted s2 = (if set_throws s then persisted s else Some ''dark'')"
    if dark: "body_theme s = Some ''dark''"
  proof -
    have r1: "normalize_theme (requested Click s) = ''light''"
      using dark by (simp add: normalize_theme_def flip_theme_def current_theme_def)
    have t1: "body_theme s1 = Some ''light''"
      using step_fields(2) [OF s1] by (simp only: r1)
    have b1: "btn s1 = map_option (\<lambda>h. DARK_ACTION) (btn s)"
      using step_fields(4) [OF s1] by (simp only: r1) (simp add: toggle_content_def)
    have p1: "persisted s1 = (if set_throws s then persisted s else Some ''light'')"
      using step_fields(3) [OF s1] by (simp only: r1) (simp add: persisted_def)
    have w1: "set_throws s1 = set_throws s"
      using step_fields(6) [OF s1] .
    obtain s2 where s2: "step Click s1 = Inr s2"
      using step_total by blast
    have c2: "on_click s1 = Inr s2"
      using s2 by simp
    have r2: "normalize_theme (requested Click s1) = ''dark''"
      using t1 by (simp add: normalize_theme_def flip_theme_def current_theme_def)
    have t2: "body_theme s2 = Some ''dark''"
      using step_fields(2) [OF s2] by (simp only: r2)
    have "btn s2 = map_option (\<lambda>h. LIGHT_ACTION) (btn s1)"
      using step_fields(4) [OF s2] by (simp only: r2) (simp add: toggle_content_def)
    then have b2: "btn s2 = map_option (\<lambda>h. LIGHT_ACTION) (btn s)"
      by (simp add: b1 option.map_comp comp_def)
    have "persisted s2 = (if set_throws s1 then persisted s1 else Some ''dark'')"
      using step_fields(3) [OF s2] by (simp only: r2) (simp add: persisted_def)
    then have p2: "persisted s2 = (if set_throws s then persisted s else Some ''dark'')"
      using p1 w1 by simp
    show ?thesis
      using c1 t1 b1 p1 c2 t2 b2 p2 by blast
  qed
  show ?thesis
    using first second by blast
qed

theorem click_toggles_witness:
  "body_theme dark_page = Some ''dark'' \<and>
   (\<exists>s1 s2. on_click dark_page = Inr s1 \<and>
      body_theme s1 = Some ''light'' \<and>
      btn s1 = Some DARK_ACTION \<and>
      persisted s1 = Some ''light'' \<and>
      on_click s1 = Inr s2 \<and>
      body_theme s2 = Some ''dark'' \<and>
      btn s2 = Some LIGHT_ACTION \<and>
      persisted s2 = Some ''dark'')"
proof -
  have h: "body_theme dark_page = Some ''dark''"
    and b: "btn dark_page = Some ''Theme''"
    and w: "\<not> set_throws dark_page"
    by (simp_all add: dark_page_def first_visit_def)
  show ?thesis
    using h conjunct2 [OF click_toggles [of dark_page]] unfolding b by (simp add: w)
qed

subsection \<open>Failing writes\<close>

text \<open>
  Claim C7, as stated, fails for a sequence that initialises again after a click: with
  working storage the second \<^verbatim>\<open>init\<close> reads the \<^verbatim>\<open>light\<close> the click stored, with failing
  writes it finds nothing and applies \<^verbatim>\<open>dark\<close>.
\<close>

theorem reinit_after_failed_write_counterexample:
  "observe (run [Initialize, Click, Initialize] unwritable_visit) =
     Inr (Some ''https://cdn.jsdelivr.net/npm/bootswatch@5.3.3/dist/darkly/bootstrap.min.css'',
          Some ''dark'', Some LIGHT_ACTION) \<and>
   observe (run [Initialize, Click, Initialize] first_visit) =
     Inr (Some ''https://cdn.jsdelivr.net/npm/bootswatch@5.3.3/dist/lux/bootstrap.min.css'',
          Some ''light'', Some DARK_ACTION) \<and>
   unwritable_visit = first_visit\<lparr>set_throws := True\<rparr>"
  by (simp add: observe_def dom_view_def init_def on_click_def current_theme_def flip_theme_def
      apply_theme_def saved_theme_def normalize_theme_def prim_defs Let_def
      toggle_content_def THEMES_at_def THEMES_def THEME_KEY_def
      unwritable_visit_def first_visit_def)

text \<open>
  Claim C7, amended. When every write to the storage throws, \<^verbatim>\<open>apply\<close> still returns
  without an exception and performs its other effects, and the items of the storage
  stay as they were; what \<^verbatim>\<open>apply\<close> makes visible is what it makes visible with working
  storage. No sequence of events throws or changes the stored items. Each single event
  makes visible exactly what it would with working storage, and so does every sequence
  of one event followed by any number of clicks, which is the life of one page.
\<close>

theorem storage_failure_resilience:
  "(\<exists>s'. apply_theme v (s\<lparr>set_throws := True\<rparr>) = Inr s' \<and>
      link s' = map_option (\<lambda>h. THEMES_at (normalize_theme v)) (link s) \<and>
      body_theme s' = Some (normalize_theme v) \<and>
      btn s' = map_option (\<lambda>h. toggle_content (normalize_theme v)) (btn s) \<and>
      store s' = store s) \<and>
   observe (apply_theme v (s\<lparr>set_throws := True\<rparr>)) =
     observe (apply_theme v (s\<lparr>set_throws := False\<rparr>)) \<and>
   (\<exists>s'. run es (s\<lparr>set_throws := True\<rparr>) = Inr s' \<and> store s' = store s) \<and>
   observe (step e (s\<lparr>set_throws := True\<rparr>)) =
     observe (step e (s\<lparr>set_throws := False\<rparr>)) \<and>
   observe (run (e # replicate n Click) (s\<lparr>set_throws := True\<rparr>)) =
     observe (run (e # replicate n Click) (s\<lparr>set_throws := False\<rparr>))"
proof -
  let ?f = "s\<lparr>set_throws := True\<rparr>" and ?w = "s\<lparr>set_throws := False\<rparr>"
  have a: "\<exists>s'. apply_theme v ?f = Inr s' \<and>
      link s' = map_option (\<lambda>h. THEMES_at (normalize_theme v)) (link s) \<and>
      body_theme s' = Some (normalize_theme v) \<and>
      btn s' = map_option (\<lambda>h. toggle_content (normalize_theme v)) (btn s) \<and>
      store s' = store s"
    by (simp add: apply_theme_Inr)
  have b: "observe (apply_theme v ?f) = observe (apply_theme v ?w)"
    by (simp add: observe_apply_theme)
  obtain s' where s': "run es ?f = Inr s'"
    using run_total by blast
  have "store s' = store ?f"
    using _ s' by (rule run_store_unwritable) simp
  then have c: "\<exists>s'. run es ?f = Inr s' \<and> store s' = store s"
    using s' by simp
  have d: "observe (step e ?f) = observe (step e ?w)"
    by (simp add: observe_step requested_ignores_set_throws del: step.simps requested.simps)
  obtain a1 where a1: "step e ?f = Inr a1"
    using step_total by blast
  obtain b1 where b1: "step e ?w = Inr b1"
    using step_total by blast
  have "dom_view a1 = dom_view b1"
    using d unfolding a1 b1 by (simp add: observe_def)
  then have "observe (run (replicate n Click) a1) = observe (run (replicate n Click) b1)"
    by (rule observe_clicks)
  then have e: "observe (run (e # replicate n Click) ?f) = observe (run (e # replicate n Click) ?w)"
    by (simp only: run_Cons_Inr [OF a1] run_Cons_Inr [OF b1])
  show ?thesis
    using a b c d e by blast
qed

end
